theory Spec2Isabelle
  imports Main "HOL-Library.AList"
begin

section \<open>staticgen: a static site generator over Go templates\<close>

text \<open>
  The program is \<^verbatim>\<open>main.go\<close>: \<^verbatim>\<open>main\<close> creates the output directory, expands the page
  glob and calls \<^verbatim>\<open>renderOne\<close> for every page; \<^verbatim>\<open>renderOne\<close> parses the shared
  fragments and the page into one template set, resolves the layout, derives the output
  path and executes the layout into the output file.

  Go strings are byte sequences: they are modelled as \<^typ>\<open>string\<close> (a list of 8-bit
  characters). The functions of the Go standard library that \<^verbatim>\<open>main.go\<close> calls
  (\<^verbatim>\<open>strings\<close>, \<^verbatim>\<open>path/filepath\<close>, \<^verbatim>\<open>os\<close>, \<^verbatim>\<open>html/template\<close>) are modelled in the
  sections below, each under the name it has in Go, for a Unix system (separator
  \<^verbatim>\<open>/\<close>, no volume names).
\<close>

section \<open>Package strings\<close>

definition HasSuffix :: "string \<Rightarrow> string \<Rightarrow> bool" where
  "HasSuffix s suffix =
     (length s \<ge> length suffix \<and> drop (length s - length suffix) s = suffix)"

definition TrimSuffix :: "string \<Rightarrow> string \<Rightarrow> string" where
  "TrimSuffix s suffix =
     (if HasSuffix s suffix then take (length s - length suffix) s else s)"

text \<open>
  \<^verbatim>\<open>strings.TrimSpace\<close> removes leading and trailing white space as Unicode defines it
  (\<^verbatim>\<open>unicode.IsSpace\<close>). On the UTF-8 bytes of a string these are the six ASCII
  characters tab, line feed, vertical tab, form feed, carriage return and space, and
  the encodings of U+0085, U+00A0, U+1680, U+2000 to U+200A, U+2028, U+2029, U+202F,
  U+205F and U+3000.
\<close>

definition spaceRunes :: "string list" where
  "spaceRunes =
     [[CHR 0x09], [CHR 0x0A], [CHR 0x0B], [CHR 0x0C], [CHR 0x0D], [CHR 0x20],
      [CHR 0xC2, CHR 0x85], [CHR 0xC2, CHR 0xA0],
      [CHR 0xE1, CHR 0x9A, CHR 0x80],
      [CHR 0xE2, CHR 0x80, CHR 0x80], [CHR 0xE2, CHR 0x80, CHR 0x81],
      [CHR 0xE2, CHR 0x80, CHR 0x82], [CHR 0xE2, CHR 0x80, CHR 0x83],
      [CHR 0xE2, CHR 0x80, CHR 0x84], [CHR 0xE2, CHR 0x80, CHR 0x85],
      [CHR 0xE2, CHR 0x80, CHR 0x86], [CHR 0xE2, CHR 0x80, CHR 0x87],
      [CHR 0xE2, CHR 0x80, CHR 0x88], [CHR 0xE2, CHR 0x80, CHR 0x89],
      [CHR 0xE2, CHR 0x80, CHR 0x8A],
      [CHR 0xE2, CHR 0x80, CHR 0xA8], [CHR 0xE2, CHR 0x80, CHR 0xA9],
      [CHR 0xE2, CHR 0x80, CHR 0xAF], [CHR 0xE2, CHR 0x81, CHR 0x9F],
      [CHR 0xE3, CHR 0x80, CHR 0x80]]"

text \<open>The length of the white-space rune the string starts with (0 when it starts with none).\<close>

definition leadingSpace :: "string \<Rightarrow> nat" where
  "leadingSpace s =
     (case filter (\<lambda>r. take (length r) s = r) spaceRunes of
        [] \<Rightarrow> 0 | r # _ \<Rightarrow> length r)"

function TrimLeftSpace :: "string \<Rightarrow> string" where
  "TrimLeftSpace s =
     (if leadingSpace s = 0 \<or> s = [] then s else TrimLeftSpace (drop (leadingSpace s) s))"
  by pat_completeness auto
termination
  by (relation "measure length") auto

definition trailingSpace :: "string \<Rightarrow> nat" where
  "trailingSpace s =
     (case filter (\<lambda>r. HasSuffix s r) spaceRunes of
        [] \<Rightarrow> 0 | r # _ \<Rightarrow> length r)"

function TrimRightSpace :: "string \<Rightarrow> string" where
  "TrimRightSpace s =
     (if trailingSpace s = 0 \<or> s = [] then s
      else TrimRightSpace (take (length s - trailingSpace s) s))"
  by pat_completeness auto
termination
  by (relation "measure length") auto

definition TrimSpace :: "string \<Rightarrow> string" where
  "TrimSpace s = TrimRightSpace (TrimLeftSpace s)"

declare TrimLeftSpace.simps [simp del] TrimRightSpace.simps [simp del]

section \<open>Package path/filepath\<close>

text \<open>
  \<^verbatim>\<open>Clean\<close> reads the path from left to right and writes the cleaned path into a
  buffer \<open>out\<close>; \<open>dotdot\<close> is the index in the buffer that a \<^verbatim>\<open>..\<close> element must not
  back up over. \<open>backtrack\<close> is the inner loop that removes the last element written.
\<close>

fun backtrack :: "string \<Rightarrow> nat \<Rightarrow> nat \<Rightarrow> nat" where
  "backtrack out dotdot 0 = 0"
| "backtrack out dotdot (Suc w) =
     (if Suc w > dotdot \<and> out ! (Suc w) \<noteq> CHR ''/'' then backtrack out dotdot w else Suc w)"

function cleanLoop :: "bool \<Rightarrow> string \<Rightarrow> string \<Rightarrow> nat \<Rightarrow> string" where
  "cleanLoop rooted [] out dotdot = out"
| "cleanLoop rooted (c # cs) out dotdot =
     (if c = CHR ''/'' then cleanLoop rooted cs out dotdot
      else if c = CHR ''.'' \<and> (cs = [] \<or> hd cs = CHR ''/'') then cleanLoop rooted cs out dotdot
      else if c = CHR ''.'' \<and> hd cs = CHR ''.'' \<and> (tl cs = [] \<or> hd (tl cs) = CHR ''/'') then
        (if length out > dotdot then
           cleanLoop rooted (tl cs) (take (backtrack out dotdot (length out - 1)) out) dotdot
         else if \<not> rooted then
           (let out' = (if out \<noteq> [] then out @ ''/'' else out) @ ''..''
            in cleanLoop rooted (tl cs) out' (length out'))
         else cleanLoop rooted (tl cs) out dotdot)
      else
        (let out' = (if rooted \<and> length out \<noteq> 1 \<or> \<not> rooted \<and> length out \<noteq> 0
                     then out @ ''/'' else out)
         in cleanLoop rooted (dropWhile (\<lambda>x. x \<noteq> CHR ''/'') cs)
              (out' @ c # takeWhile (\<lambda>x. x \<noteq> CHR ''/'') cs) dotdot))"
  by pat_completeness auto
termination
  by (relation "measure (\<lambda>(rooted, path, out, dotdot). length path)")
     (auto simp: less_Suc_eq_le length_dropWhile_le)

definition Clean :: "string \<Rightarrow> string" where
  "Clean path =
     (if path = [] then ''.''
      else let rooted = (hd path = CHR ''/'');
               out = (if rooted then cleanLoop True (tl path) ''/'' 1
                      else cleanLoop False path [] 0)
           in if out = [] then ''.'' else out)"

declare cleanLoop.simps [simp del]

text \<open>\<^verbatim>\<open>Join\<close> skips leading empty elements, joins the rest with the separator and cleans.\<close>

fun joinSep :: "string list \<Rightarrow> string" where
  "joinSep [] = []"
| "joinSep [e] = e"
| "joinSep (e # es) = e @ ''/'' @ joinSep es"

definition Join :: "string list \<Rightarrow> string" where
  "Join elem =
     (case dropWhile (\<lambda>e. e = []) elem of [] \<Rightarrow> [] | es \<Rightarrow> Clean (joinSep es))"

definition Split :: "string \<Rightarrow> string \<times> string" where
  "Split path =
     (rev (dropWhile (\<lambda>x. x \<noteq> CHR ''/'') (rev path)),
      rev (takeWhile (\<lambda>x. x \<noteq> CHR ''/'') (rev path)))"

definition Dir :: "string \<Rightarrow> string" where
  "Dir path = Clean (fst (Split path))"

definition Base :: "string \<Rightarrow> string" where
  "Base path =
     (if path = [] then ''.''
      else let stripped = rev (dropWhile (\<lambda>x. x = CHR ''/'') (rev path));
               elem = snd (Split stripped)
           in if elem = [] then ''/'' else elem)"

subsection \<open>Errors\<close>

text \<open>
  Go's \<^verbatim>\<open>error\<close> values that the program meets: \<^verbatim>\<open>*fs.PathError\<close> (operation, path,
  cause), an error that is only a message (\<^verbatim>\<open>errors.New\<close>, the errors of the template
  engine), and the error \<^verbatim>\<open>fmt.Errorf\<close> builds with \<^verbatim>\<open>%w\<close>: a message and the error
  it wraps.
\<close>

datatype error =
    PathError string string string
  | ErrorString string
  | WrapError string error

fun Error :: "error \<Rightarrow> string" where
  "Error (PathError op path err) = op @ '' '' @ path @ '': '' @ err"
| "Error (ErrorString s) = s"
| "Error (WrapError msg err) = msg"

definition ErrBadPattern :: error where
  "ErrBadPattern = ErrorString ''syntax error in pattern''"

subsection \<open>Rel\<close>

text \<open>
  The loop of \<^verbatim>\<open>Rel\<close> walks both cleaned paths element by element while the elements
  are equal. It is entered with \<^verbatim>\<open>b0 = bi\<close> and \<^verbatim>\<open>t0 = ti\<close>, so its state is the pair
  of the suffixes \<^verbatim>\<open>base[bi:]\<close> and \<^verbatim>\<open>targ[ti:]\<close>; it returns \<^verbatim>\<open>base[b0:]\<close>,
  \<^verbatim>\<open>base[b0:bi]\<close> and \<^verbatim>\<open>targ[t0:]\<close>.
\<close>

lemma drop1_dropWhile_shorter:
  assumes "xs \<noteq> []"
  shows "length (drop 1 (dropWhile P xs)) < length xs"
proof -
  have "length (dropWhile P xs) \<le> length xs" by (rule length_dropWhile_le)
  moreover have "0 < length xs" using assms by simp
  moreover have "length (drop 1 (dropWhile P xs)) = length (dropWhile P xs) - 1" by simp
  ultimately show ?thesis by linarith
qed

function relLoop :: "string \<Rightarrow> string \<Rightarrow> string \<times> string \<times> string" where
  "relLoop base targ =
     (if base = [] \<or> targ = [] then (base, [], targ)
      else let belem = takeWhile (\<lambda>x. x \<noteq> CHR ''/'') base;
               telem = takeWhile (\<lambda>x. x \<noteq> CHR ''/'') targ
           in if telem \<noteq> belem then (base, belem, targ)
              else relLoop (drop 1 (dropWhile (\<lambda>x. x \<noteq> CHR ''/'') base))
                           (drop 1 (dropWhile (\<lambda>x. x \<noteq> CHR ''/'') targ)))"
  by pat_completeness auto
termination
proof (relation "measure (\<lambda>(base, targ). length base)", goal_cases)
  case 1
  show ?case by simp
next
  case (2 base targ belem telem)
  then have "base \<noteq> []" by simp
  then show ?case using drop1_dropWhile_shorter [of base] by simp
qed

declare relLoop.simps [simp del]

definition Rel :: "string \<Rightarrow> string \<Rightarrow> error + string" where
  "Rel basepath targpath =
     (let base = Clean basepath; targ = Clean targpath in
      if targ = base then Inr ''.''
      else let base = (if base = ''.'' then [] else base);
               baseSlashed = (base \<noteq> [] \<and> hd base = CHR ''/'');
               targSlashed = (targ \<noteq> [] \<and> hd targ = CHR ''/'')
           in if baseSlashed \<noteq> targSlashed then
                Inl (ErrorString (''Rel: can't make '' @ targpath @ '' relative to '' @ basepath))
              else case relLoop base targ of (brest, belem, trest) \<Rightarrow>
                if belem = ''..'' then
                  Inl (ErrorString (''Rel: can't make '' @ targpath @ '' relative to '' @ basepath))
                else if brest \<noteq> [] then
                  Inr (''..'' @ concat (replicate (count_list brest (CHR ''/'')) ''/..'')
                       @ (if trest \<noteq> [] then ''/'' @ trest else []))
                else Inr trest)"

section \<open>Package os: the file system\<close>

text \<open>
  The file system is the list of its directories and the association list of its
  regular files with their bytes, both keyed by cleaned path. The working directory
  \<^verbatim>\<open>.\<close>, the root \<^verbatim>\<open>/\<close> and the ancestors \<^verbatim>\<open>..\<close>, \<^verbatim>\<open>../..\<close>, ... of the working
  directory always exist; the empty path names nothing. Symbolic links, permissions
  and a full disk are not modelled: an operation fails only for the reasons written
  here.
\<close>

record filesys =
  dirs :: "string list"
  files :: "(string \<times> string) list"

datatype FileMode = ModeDir | ModeRegular

fun dotdots :: "string \<Rightarrow> bool" where
  "dotdots [a, b] = (a = CHR ''.'' \<and> b = CHR ''.'')"
| "dotdots (a # b # c # rest) = (a = CHR ''.'' \<and> b = CHR ''.'' \<and> c = CHR ''/'' \<and> dotdots rest)"
| "dotdots _ = False"

definition Stat :: "filesys \<Rightarrow> string \<Rightarrow> FileMode option" where
  "Stat fs name =
     (let key = Clean name in
      if name = [] then None
      else if key = ''.'' \<or> key = ''/'' \<or> dotdots key \<or> key \<in> set (dirs fs) then Some ModeDir
      else if map_of (files fs) key \<noteq> None then Some ModeRegular
      else None)"

definition ReadFile :: "filesys \<Rightarrow> string \<Rightarrow> error + string" where
  "ReadFile fs name =
     (case Stat fs name of
        Some ModeRegular \<Rightarrow> Inr (the (map_of (files fs) (Clean name)))
      | Some ModeDir \<Rightarrow> Inl (PathError ''read'' name ''is a directory'')
      | None \<Rightarrow> Inl (PathError ''open'' name ''no such file or directory''))"

definition Mkdir :: "filesys \<Rightarrow> string \<Rightarrow> error + filesys" where
  "Mkdir fs name =
     (if Stat fs name \<noteq> None then Inl (PathError ''mkdir'' name ''file exists'')
      else if name = [] \<or> Stat fs (Dir (Clean name)) \<noteq> Some ModeDir then
        Inl (PathError ''mkdir'' name ''no such file or directory'')
      else Inr (fs\<lparr>dirs := dirs fs @ [Clean name]\<rparr>))"

text \<open>
  \<^verbatim>\<open>MkdirAll\<close>: the fast path answers when the path exists; the slow path creates the
  parent (the path up to its last element, trailing separators skipped) and then the
  directory itself.
\<close>

definition parentOf :: "string \<Rightarrow> string" where
  "parentOf path =
     rev (dropWhile (\<lambda>x. x \<noteq> CHR ''/'') (dropWhile (\<lambda>x. x = CHR ''/'') (rev path)))"

lemma parentOf_shorter: "path \<noteq> [] \<Longrightarrow> length (parentOf path) < length path"
proof -
  assume ne: "path \<noteq> []"
  let ?r = "dropWhile (\<lambda>x. x = CHR ''/'') (rev path)"
  show ?thesis
  proof (cases ?r)
    case Nil
    have "parentOf path = []" unfolding parentOf_def Nil by simp
    then show ?thesis using ne by simp
  next
    case (Cons c cs)
    then have c: "c \<noteq> CHR ''/''"
      using hd_dropWhile [of "\<lambda>x. x = CHR ''/''" "rev path"] by auto
    have "length (dropWhile (\<lambda>x. x \<noteq> CHR ''/'') ?r) \<le> length cs"
      using Cons c by (simp add: length_dropWhile_le)
    moreover have "length ?r \<le> length path"
      using length_dropWhile_le [of "\<lambda>x. x = CHR ''/''" "rev path"] by simp
    ultimately show ?thesis unfolding parentOf_def Cons by simp
  qed
qed

function MkdirAll :: "filesys \<Rightarrow> string \<Rightarrow> error + filesys" where
  "MkdirAll fs path =
     (case Stat fs path of
        Some ModeDir \<Rightarrow> Inr fs
      | Some ModeRegular \<Rightarrow> Inl (PathError ''mkdir'' path ''not a directory'')
      | None \<Rightarrow>
          (case (if parentOf path \<noteq> [] \<and> path \<noteq> [] then MkdirAll fs (parentOf path) else Inr fs) of
             Inl err \<Rightarrow> Inl err
           | Inr fs' \<Rightarrow>
               (case Mkdir fs' path of
                  Inr fs'' \<Rightarrow> Inr fs''
                | Inl err \<Rightarrow> if Stat fs' path = Some ModeDir then Inr fs' else Inl err)))"
  by pat_completeness auto
termination
  by (relation "measure (\<lambda>(fs, path). length path)") (auto simp: parentOf_shorter)

declare MkdirAll.simps [simp del]

text \<open>
  \<^verbatim>\<open>os.Create\<close> opens the file for writing, creating or truncating it. \<open>WriteFile\<close> is
  what the writes through the open file leave in it.
\<close>

definition Create :: "filesys \<Rightarrow> string \<Rightarrow> error + filesys" where
  "Create fs name =
     (if Stat fs name = Some ModeDir then Inl (PathError ''open'' name ''is a directory'')
      else if name = [] \<or> Stat fs (Dir (Clean name)) \<noteq> Some ModeDir then
        Inl (PathError ''open'' name ''no such file or directory'')
      else Inr (fs\<lparr>files := AList.update (Clean name) [] (files fs)\<rparr>))"

definition WriteFile :: "filesys \<Rightarrow> string \<Rightarrow> string \<Rightarrow> filesys" where
  "WriteFile fs name bytes = fs\<lparr>files := AList.update (Clean name) bytes (files fs)\<rparr>"

text \<open>
  The names in a directory, sorted in byte order as \<^verbatim>\<open>filepath.Glob\<close> sorts what
  \<^verbatim>\<open>Readdirnames\<close> returns.
\<close>

fun strLess :: "string \<Rightarrow> string \<Rightarrow> bool" where
  "strLess [] [] = False"
| "strLess [] (y # ys) = True"
| "strLess (x # xs) [] = False"
| "strLess (x # xs) (y # ys) =
     ((of_char x :: nat) < of_char y \<or> (x = y \<and> strLess xs ys))"

fun insertName :: "string \<Rightarrow> string list \<Rightarrow> string list" where
  "insertName n [] = [n]"
| "insertName n (m # ms) =
     (if n = m then m # ms else if strLess n m then n # m # ms else m # insertName n ms)"

definition sortNames :: "string list \<Rightarrow> string list" where
  "sortNames ns = foldr insertName ns []"

definition Readdirnames :: "filesys \<Rightarrow> string \<Rightarrow> string list" where
  "Readdirnames fs dir =
     sortNames (map Base (filter (\<lambda>key. Dir key = Clean dir \<and> key \<noteq> Clean dir)
                                 (dirs fs @ map fst (files fs))))"

section \<open>filepath.Match and filepath.Glob\<close>

text \<open>
  \<^verbatim>\<open>utf8.DecodeRuneInString\<close>: the first code point of a string and the number of its
  bytes; \<^verbatim>\<open>(RuneError, 1)\<close> for a byte that starts no valid encoding and
  \<^verbatim>\<open>(RuneError, 0)\<close> for the empty string.
\<close>

definition RuneError :: nat where
  "RuneError = 0xFFFD"

definition byteAt :: "string \<Rightarrow> nat \<Rightarrow> nat" where
  "byteAt s i = (if i < length s then of_char (s ! i) else 0)"

definition byteIn :: "string \<Rightarrow> nat \<Rightarrow> nat \<Rightarrow> nat \<Rightarrow> bool" where
  "byteIn s i lo hi = (i < length s \<and> lo \<le> byteAt s i \<and> byteAt s i \<le> hi)"

definition DecodeRuneInString :: "string \<Rightarrow> nat \<times> nat" where
  "DecodeRuneInString s =
     (if s = [] then (RuneError, 0)
      else let b0 = byteAt s 0; b1 = byteAt s 1; b2 = byteAt s 2; b3 = byteAt s 3
      in if b0 < 0x80 then (b0, 1)
         else if 0xC2 \<le> b0 \<and> b0 \<le> 0xDF then
           (if byteIn s 1 0x80 0xBF then ((b0 mod 32) * 64 + b1 mod 64, 2) else (RuneError, 1))
         else if 0xE0 \<le> b0 \<and> b0 \<le> 0xEF then
           (if byteIn s 1 (if b0 = 0xE0 then 0xA0 else 0x80) (if b0 = 0xED then 0x9F else 0xBF)
               \<and> byteIn s 2 0x80 0xBF
            then ((b0 mod 16) * 4096 + (b1 mod 64) * 64 + b2 mod 64, 3) else (RuneError, 1))
         else if 0xF0 \<le> b0 \<and> b0 \<le> 0xF4 then
           (if byteIn s 1 (if b0 = 0xF0 then 0x90 else 0x80) (if b0 = 0xF4 then 0x8F else 0xBF)
               \<and> byteIn s 2 0x80 0xBF \<and> byteIn s 3 0x80 0xBF
            then ((b0 mod 8) * 262144 + (b1 mod 64) * 4096 + (b2 mod 64) * 64 + b3 mod 64, 4)
            else (RuneError, 1))
         else (RuneError, 1))"

lemma DecodeRuneInString_size: "s \<noteq> [] \<Longrightarrow> 1 \<le> snd (DecodeRuneInString s)"
  by (simp add: DecodeRuneInString_def Let_def)

text \<open>
  \<^verbatim>\<open>Match\<close> cuts the pattern into chunks: a chunk is a run of terms without \<^verbatim>\<open>*\<close>,
  possibly preceded by stars. \<^verbatim>\<open>scanChunk\<close> returns whether the chunk follows a star,
  the chunk and the rest of the pattern. A \<^verbatim>\<open>*\<close> inside brackets does not end a chunk
  and a backslash quotes the next byte. Two stars are read as one: \<^verbatim>\<open>**\<close> has no
  meaning of its own.
\<close>

fun scanLoop :: "bool \<Rightarrow> string \<Rightarrow> string \<times> string" where
  "scanLoop inrange [] = ([], [])"
| "scanLoop inrange [c] = (if c = CHR ''*'' \<and> \<not> inrange then ([], [c]) else ([c], []))"
| "scanLoop inrange (c # d # cs) =
     (if c = CHR 0x5C then (c # d # fst (scanLoop inrange cs), snd (scanLoop inrange cs))
      else if c = CHR ''['' then (c # fst (scanLoop True (d # cs)), snd (scanLoop True (d # cs)))
      else if c = CHR '']'' then (c # fst (scanLoop False (d # cs)), snd (scanLoop False (d # cs)))
      else if c = CHR ''*'' \<and> \<not> inrange then ([], c # d # cs)
      else (c # fst (scanLoop inrange (d # cs)), snd (scanLoop inrange (d # cs))))"

definition scanChunk :: "string \<Rightarrow> bool \<times> string \<times> string" where
  "scanChunk pattern =
     (pattern \<noteq> [] \<and> hd pattern = CHR ''*'',
      scanLoop False (dropWhile (\<lambda>c. c = CHR ''*'') pattern))"

lemma scanLoop_length: "length (fst (scanLoop inrange p)) + length (snd (scanLoop inrange p)) = length p"
  by (induction inrange p rule: scanLoop.induct) simp_all

lemma scanLoop_progress:
  "p \<noteq> [] \<Longrightarrow> hd p \<noteq> CHR ''*'' \<Longrightarrow> length (snd (scanLoop False p)) < length p"
proof -
  assume a: "p \<noteq> []" "hd p \<noteq> CHR ''*''"
  have "fst (scanLoop False p) \<noteq> []"
  proof (cases p)
    case Nil
    then show ?thesis using a by simp
  next
    case (Cons c cs)
    then show ?thesis using a by (cases cs) auto
  qed
  then show ?thesis using scanLoop_length [of False p] by (cases "fst (scanLoop False p)") auto
qed

lemma scanChunk_shorter:
  assumes "pattern \<noteq> []" and "scanChunk pattern = (star, chunk, rest)"
  shows "length rest < length pattern"
proof -
  let ?p = "dropWhile (\<lambda>c. c = CHR ''*'') pattern"
  have r: "rest = snd (scanLoop False ?p)" using assms(2) by (simp add: scanChunk_def)
  have le: "length ?p \<le> length pattern" by (rule length_dropWhile_le)
  obtain c cs where pc: "pattern = c # cs" using assms(1) by (cases pattern) auto
  show ?thesis
  proof (cases "c = CHR ''*''")
    case True
    then have "?p = dropWhile (\<lambda>c. c = CHR ''*'') cs" using pc by simp
    moreover have "length (dropWhile (\<lambda>c. c = CHR ''*'') cs) \<le> length cs"
      by (rule length_dropWhile_le)
    ultimately have "length ?p < length pattern" using pc by simp
    moreover have "length (snd (scanLoop False ?p)) \<le> length ?p"
      using scanLoop_length [of False ?p] by simp
    ultimately show ?thesis using r by simp
  next
    case False
    then have "?p = pattern" "hd pattern \<noteq> CHR ''*''" using pc by simp_all
    then show ?thesis using r scanLoop_progress [OF assms(1)] by simp
  qed
qed

text \<open>
  \<^verbatim>\<open>getEsc\<close> reads one character of a character class, possibly quoted. A class
  that ends here is malformed (\<open>None\<close> stands for \<^verbatim>\<open>ErrBadPattern\<close>). \<open>classRanges\<close> is
  the loop over the ranges of a class, up to the closing bracket.
\<close>

definition getEsc :: "string \<Rightarrow> (nat \<times> string) option" where
  "getEsc chunk =
     (if chunk = [] \<or> hd chunk = CHR ''-'' \<or> hd chunk = CHR '']'' then None
      else let chunk1 = (if hd chunk = CHR 0x5C then tl chunk else chunk) in
        if chunk1 = [] then None
        else let r = fst (DecodeRuneInString chunk1);
                 n = snd (DecodeRuneInString chunk1);
                 nchunk = drop n chunk1
             in if (r = RuneError \<and> n = 1) \<or> nchunk = [] then None else Some (r, nchunk))"

lemma getEsc_shorter: "getEsc chunk = Some (r, nchunk) \<Longrightarrow> length nchunk < length chunk"
proof -
  assume a: "getEsc chunk = Some (r, nchunk)"
  define chunk1 where "chunk1 = (if hd chunk = CHR 0x5C then tl chunk else chunk)"
  have c: "chunk \<noteq> []" "chunk1 \<noteq> []" "nchunk = drop (snd (DecodeRuneInString chunk1)) chunk1"
    using a by (auto simp: getEsc_def Let_def chunk1_def split: if_splits)
  have "1 \<le> snd (DecodeRuneInString chunk1)" using c(2) by (rule DecodeRuneInString_size)
  then have "length nchunk < length chunk1" using c(2,3) by (cases chunk1) auto
  moreover have "length chunk1 \<le> length chunk" by (simp add: chunk1_def)
  ultimately show ?thesis by simp
qed

function classRanges :: "string \<Rightarrow> nat \<Rightarrow> (nat \<times> nat) list \<Rightarrow> ((nat \<times> nat) list \<times> string) option" where
  "classRanges chunk nrange acc =
     (if chunk \<noteq> [] \<and> hd chunk = CHR '']'' \<and> nrange > 0 then Some (acc, tl chunk)
      else case getEsc chunk of
             None \<Rightarrow> None
           | Some (lo, chunk1) \<Rightarrow>
               if hd chunk1 = CHR ''-'' then
                 (case getEsc (tl chunk1) of
                    None \<Rightarrow> None
                  | Some (hi, chunk2) \<Rightarrow> classRanges chunk2 (nrange + 1) (acc @ [(lo, hi)]))
               else classRanges chunk1 (nrange + 1) (acc @ [(lo, lo)]))"
  by pat_completeness auto
termination
proof (relation "measure (\<lambda>(chunk, nrange, acc). length chunk)", goal_cases)
  case 1
  show ?case by simp
next
  case (2 chunk nrange acc x2 lo chunk1 x2a hi chunk2)
  then have "length chunk2 < length (tl chunk1)" "length chunk1 < length chunk"
    by (auto dest: getEsc_shorter)
  then show ?case by simp
next
  case (3 chunk nrange acc x2 lo chunk1)
  then show ?case by (auto dest: getEsc_shorter)
qed

declare classRanges.simps [simp del]

lemma classRanges_shorter:
  "classRanges chunk nrange acc = Some (rs, rest) \<Longrightarrow> length rest \<le> length chunk"
proof (induction chunk nrange acc rule: classRanges.induct)
  case (1 chunk nrange acc)
  show ?case
  proof (cases "chunk \<noteq> [] \<and> hd chunk = CHR '']'' \<and> nrange > 0")
    case True
    then show ?thesis using "1.prems" by (subst (asm) classRanges.simps) auto
  next
    case False
    then obtain lo chunk1 where g: "getEsc chunk = Some (lo, chunk1)"
      using "1.prems" by (subst (asm) classRanges.simps) (auto split: option.splits)
    then have l1: "length chunk1 < length chunk" by (rule getEsc_shorter)
    show ?thesis
    proof (cases "hd chunk1 = CHR ''-''")
      case dash: True
      then obtain hi chunk2 where g2: "getEsc (tl chunk1) = Some (hi, chunk2)"
        using "1.prems" False g by (subst (asm) classRanges.simps) (auto split: option.splits)
      then have l2: "length chunk2 < length (tl chunk1)" by (rule getEsc_shorter)
      have "classRanges chunk2 (nrange + 1) (acc @ [(lo, hi)]) = Some (rs, rest)"
        using "1.prems" False g dash g2 by (subst (asm) classRanges.simps) simp
      then have "length rest \<le> length chunk2"
        using "1.IH"(1) [OF False g refl dash g2 refl] by simp
      then show ?thesis using l1 l2 by simp
    next
      case nodash: False
      have "classRanges chunk1 (nrange + 1) (acc @ [(lo, lo)]) = Some (rs, rest)"
        using "1.prems" False g nodash by (subst (asm) classRanges.simps) simp
      then have "length rest \<le> length chunk1"
        using "1.IH"(2) [OF False g refl nodash] by simp
      then show ?thesis using l1 by simp
    qed
  qed
qed

fun inRanges :: "(nat \<times> nat) list \<Rightarrow> nat \<Rightarrow> bool" where
  "inRanges [] r = False"
| "inRanges ((lo, hi) # ranges) r = ((lo \<le> r \<and> r \<le> hi) \<or> inRanges ranges r)"

text \<open>
  \<^verbatim>\<open>matchChunk\<close> checks whether the chunk matches the beginning of \<open>s\<close> and returns the
  rest of \<open>s\<close> and \<^verbatim>\<open>ok\<close>, or \<open>None\<close> for \<^verbatim>\<open>ErrBadPattern\<close>. Once the match has
  \<open>failed\<close>, the loop goes on over the chunk to check that it is well formed, and
  reads \<open>s\<close> no more. A class and \<^verbatim>\<open>?\<close> consume one code point of \<open>s\<close>, a literal one
  byte.
\<close>

function matchChunk :: "string \<Rightarrow> string \<Rightarrow> bool \<Rightarrow> (string \<times> bool) option" where
  "matchChunk [] s failed = Some (if failed then ([], False) else (s, True))"
| "matchChunk (c # chunk) s failed0 =
     (let failed = (failed0 \<or> s = []) in
      if c = CHR ''['' then
        (let r = (if \<not> failed then fst (DecodeRuneInString s) else 0);
             s1 = (if \<not> failed then drop (snd (DecodeRuneInString s)) s else s);
             negated = (chunk \<noteq> [] \<and> hd chunk = CHR ''^'')
         in case classRanges (if negated then tl chunk else chunk) 0 [] of
              None \<Rightarrow> None
            | Some (ranges, chunk') \<Rightarrow>
                matchChunk chunk' s1 (failed \<or> inRanges ranges r = negated))
      else if c = CHR ''?'' then
        (if \<not> failed then matchChunk chunk (drop (snd (DecodeRuneInString s)) s) (hd s = CHR ''/'')
         else matchChunk chunk s True)
      else if c = CHR 0x5C then
        (case chunk of
           [] \<Rightarrow> None
         | d # chunk' \<Rightarrow>
             if \<not> failed then matchChunk chunk' (tl s) (d \<noteq> hd s) else matchChunk chunk' s True)
      else
        (if \<not> failed then matchChunk chunk (tl s) (c \<noteq> hd s) else matchChunk chunk s True))"
  by pat_completeness auto
termination
proof (relation "measure (\<lambda>(chunk, s, failed). length chunk)", goal_cases)
  case (2 c chunk s failed0 failed r s1 negated x2 ranges chunk')
  then have "length chunk' \<le> length (if negated then tl chunk else chunk)"
    by (auto dest: classRanges_shorter)
  then show ?case by (auto split: if_splits)
qed auto

declare matchChunk.simps [simp del]

text \<open>
  The loop of \<^verbatim>\<open>Match\<close> that looks for the chunk after a star, skipping bytes of the
  name but no separator; \<open>lastChunk\<close> says that the pattern ends with this chunk, which
  must then match up to the end of the name. It returns the rest of the name after the
  chunk, \<open>None\<close> when the chunk is found nowhere.
\<close>

fun starLoop :: "string \<Rightarrow> bool \<Rightarrow> string \<Rightarrow> error + string option" where
  "starLoop chunk lastChunk [] = Inr None"
| "starLoop chunk lastChunk (c # name) =
     (if c = CHR ''/'' then Inr None
      else case matchChunk chunk name False of
             None \<Rightarrow> Inl ErrBadPattern
           | Some (t, ok) \<Rightarrow>
               if ok \<and> \<not> (lastChunk \<and> t \<noteq> []) then Inr (Some t)
               else starLoop chunk lastChunk name)"

function Match :: "string \<Rightarrow> string \<Rightarrow> error + bool" where
  "Match pattern name =
     (if pattern = [] then Inr (name = [])
      else case scanChunk pattern of
        (star, chunk, rest) \<Rightarrow>
          if star \<and> chunk = [] then Inr (CHR ''/'' \<notin> set name)
          else (case matchChunk chunk name False of
                  None \<Rightarrow> Inl ErrBadPattern
                | Some (t, ok) \<Rightarrow>
                    if ok \<and> (t = [] \<or> rest \<noteq> []) then Match rest t
                    else if star then
                      (case starLoop chunk (rest = []) name of
                         Inl err \<Rightarrow> Inl err
                       | Inr None \<Rightarrow> Inr False
                       | Inr (Some t') \<Rightarrow> Match rest t')
                    else Inr False))"
  by pat_completeness auto
termination
  by (relation "measure (\<lambda>(pattern, name). length pattern)")
     (auto dest: scanChunk_shorter [OF _ sym])

declare Match.simps [simp del]

text \<open>
  \<^verbatim>\<open>Glob\<close> returns the matches and an error, as in Go: \<^verbatim>\<open>renderOne\<close> reads the matches
  and drops the error. \<open>globDir\<close> is Go's \<^verbatim>\<open>glob\<close>: it appends to \<open>matches\<close> the
  entries of one directory whose names match; errors of reading the directory are
  ignored.
\<close>

definition hasMeta :: "string \<Rightarrow> bool" where
  "hasMeta path = (\<exists>c \<in> set path. c = CHR ''*'' \<or> c = CHR ''?'' \<or> c = CHR ''['' \<or> c = CHR 0x5C)"

definition cleanGlobPath :: "string \<Rightarrow> string" where
  "cleanGlobPath path =
     (if path = [] then ''.'' else if path = ''/'' then path else butlast path)"

fun globNames :: "string \<Rightarrow> string \<Rightarrow> string list \<Rightarrow> string list \<Rightarrow> string list \<times> error option" where
  "globNames dir pattern [] m = (m, None)"
| "globNames dir pattern (n # names) m =
     (case Match pattern n of
        Inl err \<Rightarrow> (m, Some err)
      | Inr matched \<Rightarrow> globNames dir pattern names (if matched then m @ [Join [dir, n]] else m))"

definition globDir :: "filesys \<Rightarrow> string \<Rightarrow> string \<Rightarrow> string list \<Rightarrow> string list \<times> error option" where
  "globDir fs dir pattern matches =
     (if Stat fs dir \<noteq> Some ModeDir then (matches, None)
      else globNames dir pattern (Readdirnames fs dir) matches)"

fun globEach :: "filesys \<Rightarrow> string list \<Rightarrow> string \<Rightarrow> string list \<Rightarrow> string list \<times> error option" where
  "globEach fs [] file matches = (matches, None)"
| "globEach fs (d # ds) file matches =
     (case globDir fs d file matches of
        (matches', Some err) \<Rightarrow> (matches', Some err)
      | (matches', None) \<Rightarrow> globEach fs ds file matches')"

lemma Split_fst_length: "length (fst (Split path)) \<le> length path"
  using length_dropWhile_le [of "\<lambda>x. x \<noteq> CHR ''/''" "rev path"] by (simp add: Split_def)

lemma cleanGlobPath_shorter:
  assumes "hasMeta (cleanGlobPath (fst (Split pattern)))"
  shows "length (cleanGlobPath (fst (Split pattern))) < length pattern"
proof -
  let ?d = "fst (Split pattern)"
  have le: "length ?d \<le> length pattern" by (rule Split_fst_length)
  have ne: "?d \<noteq> []"
  proof
    assume "?d = []"
    then have "cleanGlobPath ?d = ''.''" by (simp add: cleanGlobPath_def)
    then show False using assms by (simp add: hasMeta_def)
  qed
  have "?d \<noteq> ''/''"
  proof
    assume "?d = ''/''"
    then have "cleanGlobPath ?d = ''/''" by (simp add: cleanGlobPath_def)
    then show False using assms by (simp add: hasMeta_def)
  qed
  then have "cleanGlobPath ?d = butlast ?d" using ne by (simp add: cleanGlobPath_def)
  moreover have "length (butlast ?d) < length ?d" using ne by (simp add: length_greater_0_conv)
  ultimately show ?thesis using le by simp
qed

function globWithLimit :: "filesys \<Rightarrow> string \<Rightarrow> nat \<Rightarrow> string list \<times> error option" where
  "globWithLimit fs pattern depth =
     (if depth = 10000 then ([], Some ErrBadPattern)
      else case Match pattern [] of
        Inl err \<Rightarrow> ([], Some err)
      | Inr _ \<Rightarrow>
          if \<not> hasMeta pattern then
            (if Stat fs pattern = None then ([], None) else ([pattern], None))
          else
            let dir = cleanGlobPath (fst (Split pattern)); file = snd (Split pattern) in
            if \<not> hasMeta dir then globDir fs dir file []
            else if dir = pattern then ([], Some ErrBadPattern)
            else (case globWithLimit fs dir (depth + 1) of
                    (m, Some err) \<Rightarrow> ([], Some err)
                  | (m, None) \<Rightarrow> globEach fs m file []))"
  by pat_completeness auto
termination
proof (relation "measure (\<lambda>(fs, pattern, depth). length pattern)", goal_cases)
  case 1
  show ?case by simp
next
  case 2
  then show ?case by (simp add: cleanGlobPath_shorter)
qed

declare globWithLimit.simps [simp del]

definition Glob :: "filesys \<Rightarrow> string \<Rightarrow> string list \<times> error option" where
  "Glob fs pattern = globWithLimit fs pattern 0"

section \<open>Formatting: strconv.Quote and decimal numbers\<close>

text \<open>
  \<^verbatim>\<open>%q\<close> of \<^verbatim>\<open>fmt\<close> is \<^verbatim>\<open>strconv.Quote\<close>: the string in double quotes, with the
  double quote and the backslash escaped and non-printable characters written as
  escape sequences. The model is exact on ASCII; a byte from 0x80 on is copied, which
  is what Go does for the bytes of a printable non-ASCII character.
\<close>

definition hexDigit :: "nat \<Rightarrow> char" where
  "hexDigit n = ''0123456789abcdef'' ! (n mod 16)"

definition quoteByte :: "char \<Rightarrow> string" where
  "quoteByte c =
     (if c = CHR 0x22 then [CHR 0x5C, CHR 0x22]
      else if c = CHR 0x5C then [CHR 0x5C, CHR 0x5C]
      else if c = CHR 0x07 then [CHR 0x5C, CHR ''a'']
      else if c = CHR 0x08 then [CHR 0x5C, CHR ''b'']
      else if c = CHR 0x0C then [CHR 0x5C, CHR ''f'']
      else if c = CHR 0x0A then [CHR 0x5C, CHR ''n'']
      else if c = CHR 0x0D then [CHR 0x5C, CHR ''r'']
      else if c = CHR 0x09 then [CHR 0x5C, CHR ''t'']
      else if c = CHR 0x0B then [CHR 0x5C, CHR ''v'']
      else if (of_char c :: nat) < 0x20 \<or> c = CHR 0x7F then
        [CHR 0x5C, CHR ''x'', hexDigit (of_char c div 16), hexDigit (of_char c)]
      else [c])"

definition Quote :: "string \<Rightarrow> string" where
  "Quote s = [CHR 0x22] @ concat (map quoteByte s) @ [CHR 0x22]"

function itoa :: "nat \<Rightarrow> string" where
  "itoa n = (if n < 10 then [''0123456789'' ! n] else itoa (n div 10) @ [''0123456789'' ! (n mod 10)])"
  by pat_completeness auto
termination
  by (relation "measure id") simp_all

declare itoa.simps [simp del]

definition formatInt :: "int \<Rightarrow> string" where
  "formatInt i = (if i < 0 then ''-'' @ itoa (nat (- i)) else itoa (nat i))"

section \<open>Package html/template\<close>

text \<open>
  The template language itself (its syntax, its escaping, how an action is evaluated)
  is given by the engine, a parameter of the model:
  \<^item> \<open>parse funcs name text\<close> is \<^verbatim>\<open>parse.Parse\<close>: the named trees that one file's text
    defines (its top-level text under the name \<open>name\<close>, and one tree for each
    \<^verbatim>\<open>{{define}}\<close>), or the parse error; \<open>funcs\<close> are the names of the functions of the
    \<^verbatim>\<open>FuncMap\<close>;
  \<^item> \<open>IsEmptyTree\<close> says that a tree holds only white space and comments;
  \<^item> \<open>execute t funcs tree data\<close> escapes and executes one tree in the template set
    \<open>t\<close>: the bytes it wrote, and the error that stopped it, if any.
  How \<^verbatim>\<open>ParseFiles\<close> gathers the trees of several files into one set, and what
  \<^verbatim>\<open>Lookup\<close> and \<^verbatim>\<open>ExecuteTemplate\<close> do with a name, is modelled here.
\<close>

record BaseData =
  Year :: int
  BuildTimestamp :: string

text \<open>A function of the \<^verbatim>\<open>FuncMap\<close>: its name and the string a call returns.\<close>

type_synonym FuncMap = "(string \<times> string) list"

text \<open>
  A template set: the templates by name. A template created by \<^verbatim>\<open>New\<close> and never
  parsed has no tree.
\<close>

type_synonym 'tree Template = "(string \<times> 'tree option) list"

record 'tree engine =
  parse :: "string list \<Rightarrow> string \<Rightarrow> string \<Rightarrow> error + (string \<times> 'tree) list"
  IsEmptyTree :: "'tree \<Rightarrow> bool"
  execute :: "'tree Template \<Rightarrow> FuncMap \<Rightarrow> 'tree \<Rightarrow> BaseData option \<Rightarrow> string \<times> error option"

text \<open>
  \<^verbatim>\<open>associate\<close> (of \<^verbatim>\<open>AddParseTree\<close>) installs a parsed tree under its name. A name
  that is already defined is redefined, unless the new tree is empty: "Templates can
  be redefined in successive calls to Parse. A template definition with a body
  containing only white space and comments is considered empty and will not replace
  an existing template's body."
\<close>

definition associate :: "'tree engine \<Rightarrow> string \<times> 'tree \<Rightarrow> (string \<times> 'tree) list \<Rightarrow> (string \<times> 'tree) list" where
  "associate eng new tmpl =
     (if map_of tmpl (fst new) \<noteq> None \<and> IsEmptyTree eng (snd new) then tmpl
      else AList.update (fst new) (snd new) tmpl)"

text \<open>
  The loop of \<^verbatim>\<open>parseFiles\<close>: each file is read, parsed under its base name, and its
  trees are added to the set; the first error ends the loop.
\<close>

fun parseFiles :: "'tree engine \<Rightarrow> string list \<Rightarrow> filesys \<Rightarrow> string list \<Rightarrow> (string \<times> 'tree) list \<Rightarrow> error + (string \<times> 'tree) list" where
  "parseFiles eng funcs fs [] tmpl = Inr tmpl"
| "parseFiles eng funcs fs (filename # filenames) tmpl =
     (case ReadFile fs filename of
        Inl err \<Rightarrow> Inl err
      | Inr b \<Rightarrow>
          (case parse eng funcs (Base filename) b of
             Inl err \<Rightarrow> Inl err
           | Inr trees \<Rightarrow> parseFiles eng funcs fs filenames (fold (associate eng) trees tmpl)))"

text \<open>
  \<^verbatim>\<open>template.New("root").Funcs(funcs).ParseFiles(filenames...)\<close>: the set holds the
  template \<^verbatim>\<open>root\<close>, which has no tree unless a file defines it, and every template
  the files define.
\<close>

definition ParseFiles :: "'tree engine \<Rightarrow> FuncMap \<Rightarrow> filesys \<Rightarrow> string list \<Rightarrow> error + 'tree Template" where
  "ParseFiles eng funcs fs filenames =
     (if filenames = [] then
        Inl (ErrorString ''html/template: no files named in call to ParseFiles'')
      else case parseFiles eng (map fst funcs) fs filenames [] of
             Inl err \<Rightarrow> Inl err
           | Inr tmpl \<Rightarrow>
               Inr ((if map_of tmpl ''root'' = None then [(''root'', None)] else [])
                    @ map (\<lambda>(name, tree). (name, Some tree)) tmpl))"

definition Lookup :: "'tree Template \<Rightarrow> string \<Rightarrow> 'tree option option" where
  "Lookup t name = map_of t name"

text \<open>
  \<^verbatim>\<open>ExecuteTemplate(wr, name, data)\<close>: the bytes written to \<open>wr\<close> and the error. A name
  that is not in the set, or that has no tree, is an error before anything is written.
\<close>

definition ExecuteTemplate :: "'tree engine \<Rightarrow> 'tree Template \<Rightarrow> FuncMap \<Rightarrow> string \<Rightarrow> BaseData option \<Rightarrow> string \<times> error option" where
  "ExecuteTemplate eng t funcs name data =
     (case Lookup t name of
        None \<Rightarrow> ([], Some (ErrorString (''html/template: '' @ Quote name @ '' is undefined'')))
      | Some None \<Rightarrow>
          ([], Some (ErrorString (''html/template: '' @ Quote name @ '' is an incomplete template'')))
      | Some (Some tree) \<Rightarrow> execute eng t funcs tree data)"

section \<open>main.go\<close>

text \<open>
  What the program reads from the clock. \<^verbatim>\<open>renderOne\<close> calls \<^verbatim>\<open>time.Now()\<close> for the
  field \<^verbatim>\<open>Year\<close> of the data, and the template function \<^verbatim>\<open>nowRFC3339\<close> formats
  \<^verbatim>\<open>time.Now()\<close> when a template calls it: a \<open>reading\<close> holds both for one render.
  \<^verbatim>\<open>main\<close> loads the time zone and formats the current time as the default of the flag
  \<^verbatim>\<open>-timestamp\<close>.
\<close>

record reading =
  nowYear :: int
  nowRFC3339 :: string

record clock =
  LoadLocation :: "error option"
  defaultTimestamp :: string
  readings :: "nat \<Rightarrow> reading"

text \<open>The flags, parsed: \<^verbatim>\<open>-src\<close>, \<^verbatim>\<open>-out\<close>, \<^verbatim>\<open>-glob\<close>, and \<^verbatim>\<open>-timestamp\<close> when it is given.\<close>

record flags =
  flag_src :: string
  flag_out :: string
  flag_glob :: string
  flag_timestamp :: "string option"

definition defaultFlags :: flags where
  "defaultFlags =
     \<lparr>flag_src = ''./src'', flag_out = ''./site'',
      flag_glob = ''pages/**/*.template.html'', flag_timestamp = None\<rparr>"

text \<open>
  \<^verbatim>\<open>renderOne\<close> returns its error (\<open>None\<close> for \<^verbatim>\<open>nil\<close>), the file system it leaves and
  the lines it logged. \<open>resolveLayout\<close> is its layout detection (the default layout and
  the optional \<^verbatim>\<open>layout_name\<close> template); \<open>templateFiles\<close> is its list \<^verbatim>\<open>all\<close> and
  \<open>funcMap\<close> its \<^verbatim>\<open>funcs\<close>.
\<close>

definition resolveLayout :: "'tree engine \<Rightarrow> 'tree Template \<Rightarrow> FuncMap \<Rightarrow> string" where
  "resolveLayout eng t funcs =
     (let layout = ''public'' in
      if Lookup t ''layout_name'' \<noteq> None then
        (case ExecuteTemplate eng t funcs ''layout_name'' None of
           (b, None) \<Rightarrow> (let name = TrimSpace b in if name \<noteq> [] then name else layout)
         | (b, Some err) \<Rightarrow> layout)
      else layout)"

definition templateFiles :: "filesys \<Rightarrow> string list \<Rightarrow> string \<Rightarrow> string list" where
  "templateFiles fs includesGlobs pageFile =
     concat (map (\<lambda>g. fst (Glob fs g)) includesGlobs) @ [pageFile]"

definition funcMap :: "reading \<Rightarrow> FuncMap" where
  "funcMap now = [(''nowRFC3339'', nowRFC3339 now)]"

definition renderOne :: "'tree engine \<Rightarrow> reading \<Rightarrow> filesys \<Rightarrow> string \<Rightarrow> string \<Rightarrow> string list \<Rightarrow> string \<Rightarrow> string \<Rightarrow> error option \<times> filesys \<times> string list" where
  "renderOne eng now fs srcDir outDir includesGlobs pageFile buildTimestamp =
     (let all = templateFiles fs includesGlobs pageFile;
          funcs = funcMap now
      in case ParseFiles eng funcs fs all of
           Inl err \<Rightarrow> (Some err, fs, [])
         | Inr t \<Rightarrow>
             let layout = resolveLayout eng t funcs in
             (case Rel (Join [srcDir, ''pages'']) pageFile of
                Inl err \<Rightarrow> (Some err, fs, [])
              | Inr rel \<Rightarrow>
                  let outName = TrimSuffix rel ''.template.html'' @ ''.html'';
                      outPath = Join [outDir, outName];
                      logged = [''Rendering '' @ pageFile @ '' -> '' @ outPath
                                @ '' (layout: '' @ layout @ '')'']
                  in (case MkdirAll fs (Dir outPath) of
                        Inl err \<Rightarrow> (Some err, fs, logged)
                      | Inr fs1 \<Rightarrow>
                          (case Create fs1 outPath of
                             Inl err \<Rightarrow> (Some err, fs1, logged)
                           | Inr fs2 \<Rightarrow>
                               let data = \<lparr>Year = nowYear now, BuildTimestamp = buildTimestamp\<rparr> in
                               (case ExecuteTemplate eng t funcs layout (Some data) of
                                  (written, Some err) \<Rightarrow>
                                    (Some (WrapError (pageFile @ '': executing layout '' @ Quote layout
                                                      @ '': '' @ Error err) err),
                                     WriteFile fs2 outPath written, logged)
                                | (written, None) \<Rightarrow>
                                    (None, WriteFile fs2 outPath written,
                                     logged @ [''Successfully wrote '' @ outPath]))))))"

text \<open>
  The last step of \<^verbatim>\<open>renderOne\<close> on its own, to state what it does once the layout
  and the open output file are fixed: it logs the render, executes the layout with the
  data into the file, and returns the wrapped error of the execution or logs the
  success.
\<close>

definition executeLayout :: "'tree engine \<Rightarrow> 'tree Template \<Rightarrow> reading \<Rightarrow> filesys \<Rightarrow> string \<Rightarrow> string \<Rightarrow> string \<Rightarrow> string \<Rightarrow> error option \<times> filesys \<times> string list" where
  "executeLayout eng t now fs2 pageFile outPath layout buildTimestamp =
     (let logged = [''Rendering '' @ pageFile @ '' -> '' @ outPath @ '' (layout: '' @ layout @ '')''];
          data = \<lparr>Year = nowYear now, BuildTimestamp = buildTimestamp\<rparr>
      in case ExecuteTemplate eng t (funcMap now) layout (Some data) of
           (written, Some err) \<Rightarrow>
             (Some (WrapError (pageFile @ '': executing layout '' @ Quote layout
                               @ '': '' @ Error err) err),
              WriteFile fs2 outPath written, logged)
         | (written, None) \<Rightarrow>
             (None, WriteFile fs2 outPath written, logged @ [''Successfully wrote '' @ outPath]))"

text \<open>
  \<^verbatim>\<open>fatal\<close> prints the error and exits with status 1. \<^verbatim>\<open>errors.As\<close> finds a
  \<^verbatim>\<open>*fs.PathError\<close> in the chain of wrapped errors.
\<close>

fun asPathError :: "error \<Rightarrow> (string \<times> string) option" where
  "asPathError (PathError op path err) = Some (path, err)"
| "asPathError (ErrorString s) = None"
| "asPathError (WrapError msg err) = asPathError err"

definition fatal :: "error \<Rightarrow> string" where
  "fatal err =
     (case asPathError err of
        Some (path, perr) \<Rightarrow> path @ '': '' @ perr @ [CHR 0x0A]
      | None \<Rightarrow> Error err @ [CHR 0x0A])"

text \<open>
  A run of the program: its exit status, what it printed to the error stream through
  \<^verbatim>\<open>fatal\<close>, the file system it leaves, and the lines it logged (without the logger's
  date and time prefix).
\<close>

record run =
  exitStatus :: nat
  errorStream :: string
  fileSystem :: filesys
  logLines :: "string list"

text \<open>The loop over the pages; \<open>i\<close> counts the renders.\<close>

fun renderPages :: "'tree engine \<Rightarrow> (nat \<Rightarrow> reading) \<Rightarrow> nat \<Rightarrow> filesys \<Rightarrow> string \<Rightarrow> string \<Rightarrow> string list \<Rightarrow> string list \<Rightarrow> string \<Rightarrow> error option \<times> filesys \<times> string list" where
  "renderPages eng nows i fs srcDir outDir includesGlobs [] buildTimestamp = (None, fs, [])"
| "renderPages eng nows i fs srcDir outDir includesGlobs (page # pages) buildTimestamp =
     (case renderOne eng (nows i) fs srcDir outDir includesGlobs page buildTimestamp of
        (Some err, fs', logged) \<Rightarrow> (Some err, fs', logged)
      | (None, fs', logged) \<Rightarrow>
          (case renderPages eng nows (Suc i) fs' srcDir outDir includesGlobs pages buildTimestamp of
             (res, fs'', logged') \<Rightarrow> (res, fs'', logged @ logged')))"

definition main :: "'tree engine \<Rightarrow> clock \<Rightarrow> flags \<Rightarrow> filesys \<Rightarrow> run" where
  "main eng clk fl fs =
     (let srcDir = flag_src fl; outDir = flag_out fl; pagesGlob = flag_glob fl in
      case LoadLocation clk of
        Some err \<Rightarrow> \<lparr>exitStatus = 1, errorStream = fatal err, fileSystem = fs, logLines = []\<rparr>
      | None \<Rightarrow>
          let buildTimestamp = (case flag_timestamp fl of
                                  Some ts \<Rightarrow> ts | None \<Rightarrow> defaultTimestamp clk);
              logged = [''Starting static site generation...'',
                        ''Source directory: '' @ srcDir,
                        ''Output directory: '' @ outDir,
                        ''Build timestamp: '' @ buildTimestamp]
          in (case MkdirAll fs outDir of
                Inl err \<Rightarrow>
                  \<lparr>exitStatus = 1, errorStream = fatal err, fileSystem = fs, logLines = logged\<rparr>
              | Inr fs1 \<Rightarrow>
                  let pagePattern = Join [srcDir, pagesGlob] in
                  (case Glob fs1 pagePattern of
                     (pageFiles, Some err) \<Rightarrow>
                       \<lparr>exitStatus = 1, errorStream = fatal err, fileSystem = fs1, logLines = logged\<rparr>
                   | (pageFiles, None) \<Rightarrow>
                       if length pageFiles = 0 then
                         \<lparr>exitStatus = 1,
                          errorStream = fatal (ErrorString (''no page templates found: '' @ pagePattern)),
                          fileSystem = fs1, logLines = logged\<rparr>
                       else
                         let logged = logged @ [''Found '' @ itoa (length pageFiles)
                                                 @ '' page template(s) to render''];
                             includesGlobs = [Join [srcDir, ''_includes'', ''*.html''],
                                              Join [srcDir, ''_layouts'', ''*.html'']]
                         in (case renderPages eng (readings clk) 0 fs1 srcDir outDir includesGlobs
                                   pageFiles buildTimestamp of
                               (Some err, fs2, logged') \<Rightarrow>
                                 \<lparr>exitStatus = 1, errorStream = fatal err, fileSystem = fs2,
                                  logLines = logged @ logged'\<rparr>
                             | (None, fs2, logged') \<Rightarrow>
                                 \<lparr>exitStatus = 0, errorStream = [], fileSystem = fs2,
                                  logLines = logged @ logged'
                                    @ [''Static site generation completed successfully'']\<rparr>))))"

section \<open>A fragment of the template language\<close>

text \<open>
  One engine, to run the program on concrete files: the fragment of Go's template
  language with text, \<^verbatim>\<open>{{define "name"}}\<close> ... \<^verbatim>\<open>{{end}}\<close>, \<^verbatim>\<open>{{template "name"}}\<close>
  (also with the argument \<^verbatim>\<open>.\<close>), a field of the data \<^verbatim>\<open>{{.Field}}\<close> and a call of a
  function of the \<^verbatim>\<open>FuncMap\<close> \<^verbatim>\<open>{{name}}\<close>. The engine accepts no other action and
  no text with the character \<^verbatim>\<open><\<close>: markup changes how \<^verbatim>\<open>html/template\<close> escapes
  what follows, and can make the execution fail. On the text it accepts, text is
  written as it stands and a value is escaped for HTML text. A \<open>TemplateNode\<close> holds
  the name of the template it calls and whether the data is passed on (the argument
  \<^verbatim>\<open>.\<close>): without an argument, the template called gets the data \<^verbatim>\<open>nil\<close>.
\<close>

datatype node = TextNode string | FieldNode string | FuncNode string | TemplateNode string bool

datatype item = ItemText string | ItemAction string

datatype action = ActDefine string | ActEnd | ActNode node

text \<open>The lexer cuts the text at \<^verbatim>\<open>{{\<close> and \<^verbatim>\<open>}}\<close>; \<open>acc\<close> is the current item, reversed.\<close>

function lexItems :: "bool \<Rightarrow> string \<Rightarrow> string \<Rightarrow> item list option" where
  "lexItems inAction acc [] =
     (if inAction then None else Some (if acc = [] then [] else [ItemText (rev acc)]))"
| "lexItems inAction acc (c # cs) =
     (if \<not> inAction \<and> c = CHR ''{'' \<and> cs \<noteq> [] \<and> hd cs = CHR ''{'' then
        map_option (\<lambda>r. (if acc = [] then [] else [ItemText (rev acc)]) @ r)
          (lexItems True [] (tl cs))
      else if inAction \<and> c = CHR ''}'' \<and> cs \<noteq> [] \<and> hd cs = CHR ''}'' then
        map_option (Cons (ItemAction (rev acc))) (lexItems False [] (tl cs))
      else lexItems inAction (c # acc) cs)"
  by pat_completeness auto
termination
  by (relation "measure (\<lambda>(inAction, acc, text). length text)") simp_all

fun splitWords :: "string \<Rightarrow> string \<Rightarrow> string list" where
  "splitWords acc [] = (if acc = [] then [] else [rev acc])"
| "splitWords acc (c # cs) =
     (if c = CHR '' '' then (if acc = [] then [] else [rev acc]) @ splitWords [] cs
      else splitWords (c # acc) cs)"

definition unquote :: "string \<Rightarrow> string option" where
  "unquote w =
     (if length w \<ge> 2 \<and> hd w = CHR 0x22 \<and> last w = CHR 0x22
         \<and> CHR 0x22 \<notin> set (butlast (tl w)) \<and> CHR 0x5C \<notin> set (butlast (tl w))
      then Some (butlast (tl w)) else None)"

definition isIdent :: "string \<Rightarrow> bool" where
  "isIdent w =
     (w \<noteq> [] \<and> list_all (\<lambda>c. inRanges [(97, 122), (65, 90), (48, 57), (95, 95)] (of_char c)) w)"

definition parseAction :: "string list \<Rightarrow> string \<Rightarrow> action option" where
  "parseAction funcs a =
     (case splitWords [] a of
        [w] \<Rightarrow>
          if w = ''end'' then Some ActEnd
          else if hd w = CHR ''.'' \<and> isIdent (tl w) then Some (ActNode (FieldNode (tl w)))
          else if w \<in> set funcs then Some (ActNode (FuncNode w))
          else None
      | [w, q] \<Rightarrow>
          if w = ''define'' then map_option ActDefine (unquote q)
          else if w = ''template'' then map_option (\<lambda>n. ActNode (TemplateNode n False)) (unquote q)
          else None
      | [w, q, d] \<Rightarrow>
          if w = ''template'' \<and> d = ''.'' then map_option (\<lambda>n. ActNode (TemplateNode n True)) (unquote q)
          else None
      | _ \<Rightarrow> None)"

definition emptyTree :: "node list \<Rightarrow> bool" where
  "emptyTree tree = list_all (\<lambda>n. case n of TextNode s \<Rightarrow> TrimSpace s = [] | _ \<Rightarrow> False) tree"

text \<open>
  \<^verbatim>\<open>add\<close> of the parser puts a tree into the set of the file being parsed: within one
  file, a second definition of a name that has a body is an error.
\<close>

definition addTree :: "string \<times> node list \<Rightarrow> (string \<times> node list) list \<Rightarrow> error + (string \<times> node list) list" where
  "addTree new treeSet =
     (case map_of treeSet (fst new) of
        None \<Rightarrow> Inr (treeSet @ [new])
      | Some old \<Rightarrow>
          if emptyTree old then Inr (AList.update (fst new) (snd new) treeSet)
          else if \<not> emptyTree (snd new) then
            Inl (ErrorString (''template: multiple definition of template '' @ Quote (fst new)))
          else Inr treeSet)"

text \<open>
  The parser: \<open>cur\<close> is the definition being read (its name and nodes), \<open>root\<close> the
  nodes outside every definition, \<open>treeSet\<close> the definitions read so far.
\<close>

fun parseItems :: "string list \<Rightarrow> string \<Rightarrow> item list \<Rightarrow> (string \<times> node list) option \<Rightarrow> node list \<Rightarrow> (string \<times> node list) list \<Rightarrow> error + (string \<times> node list) list" where
  "parseItems funcs name [] cur root treeSet =
     (if cur \<noteq> None then Inl (ErrorString (''template: '' @ name @ '': unexpected EOF''))
      else addTree (name, root) treeSet)"
| "parseItems funcs name (ItemText s # items) cur root treeSet =
     (if CHR ''<'' \<in> set s then
        Inl (ErrorString (''template: '' @ name @ '': text with markup is not supported''))
      else case cur of
        None \<Rightarrow> parseItems funcs name items None (root @ [TextNode s]) treeSet
      | Some (n, body) \<Rightarrow> parseItems funcs name items (Some (n, body @ [TextNode s])) root treeSet)"
| "parseItems funcs name (ItemAction a # items) cur root treeSet =
     (case parseAction funcs a of
        None \<Rightarrow> Inl (ErrorString (''template: '' @ name @ '': unsupported action {{'' @ a @ ''}}''))
      | Some (ActDefine n) \<Rightarrow>
          if cur \<noteq> None then Inl (ErrorString (''template: '' @ name @ '': unexpected <define>''))
          else parseItems funcs name items (Some (n, [])) root treeSet
      | Some ActEnd \<Rightarrow>
          (case cur of
             None \<Rightarrow> Inl (ErrorString (''template: '' @ name @ '': unexpected {{end}}''))
           | Some def \<Rightarrow>
               (case addTree def treeSet of
                  Inl err \<Rightarrow> Inl err
                | Inr treeSet' \<Rightarrow> parseItems funcs name items None root treeSet'))
      | Some (ActNode nd) \<Rightarrow>
          (case cur of
             None \<Rightarrow> parseItems funcs name items None (root @ [nd]) treeSet
           | Some (n, body) \<Rightarrow> parseItems funcs name items (Some (n, body @ [nd])) root treeSet))"

definition fragParse :: "string list \<Rightarrow> string \<Rightarrow> string \<Rightarrow> error + (string \<times> node list) list" where
  "fragParse funcs name text =
     (case lexItems False [] text of
        None \<Rightarrow> Inl (ErrorString (''template: '' @ name @ '': unclosed action''))
      | Some items \<Rightarrow> parseItems funcs name items None [] [])"

definition htmlEscape :: "string \<Rightarrow> string" where
  "htmlEscape s =
     concat (map (\<lambda>c. if c = CHR 0x22 then ''&#34;'' else if c = CHR ''&'' then ''&amp;''
                       else if c = CHR 0x27 then ''&#39;'' else if c = CHR ''+'' then ''&#43;''
                       else if c = CHR ''<'' then ''&lt;'' else if c = CHR ''>'' then ''&gt;''
                       else [c]) s)"

text \<open>
  Before it executes a tree, \<^verbatim>\<open>html/template\<close> escapes it and every template it
  calls: a call of a template that is not defined is an error before anything is
  written. \<open>missingTemplate\<close> follows the calls to the depth given (the number of
  templates of the set is enough to meet every template that can be reached).
\<close>

function missingTemplate :: "nat \<Rightarrow> node list Template \<Rightarrow> node list \<Rightarrow> string option" where
  "missingTemplate depth t [] = None"
| "missingTemplate depth t (nd # nodes) =
     (case (case nd of
              TemplateNode n dot \<Rightarrow>
                (case map_of t n of
                   Some (Some body) \<Rightarrow> if depth = 0 then None else missingTemplate (depth - 1) t body
                 | _ \<Rightarrow> Some n)
            | _ \<Rightarrow> None) of
        Some n \<Rightarrow> Some n
      | None \<Rightarrow> missingTemplate depth t nodes)"
  by pat_completeness auto
termination
  by (relation "inv_image (less_than <*lex*> less_than)
                  (\<lambda>(depth, t, nodes). (depth, length nodes))") auto

text \<open>
  Execution writes node after node and stops at the first error. A field of the data
  \<^verbatim>\<open>nil\<close> prints nothing; a field that the data does not have is an error. \<open>depth\<close> is
  what is left of the engine's maximal depth of template calls (100000).
\<close>

function execNodes :: "nat \<Rightarrow> node list Template \<Rightarrow> FuncMap \<Rightarrow> node list \<Rightarrow> BaseData option \<Rightarrow> string \<times> error option" where
  "execNodes depth t funcs [] data = ([], None)"
| "execNodes depth t funcs (nd # nodes) data =
     (case (case nd of
              TextNode s \<Rightarrow> (s, None)
            | FieldNode f \<Rightarrow>
                (case data of
                   None \<Rightarrow> ([], None)
                 | Some d \<Rightarrow>
                     if f = ''Year'' then (formatInt (Year d), None)
                     else if f = ''BuildTimestamp'' then (htmlEscape (BuildTimestamp d), None)
                     else ([], Some (ErrorString (''can't evaluate field '' @ f
                                                   @ '' in type main.BaseData''))))
            | FuncNode f \<Rightarrow>
                (case map_of funcs f of
                   None \<Rightarrow> ([], Some (ErrorString (''function '' @ Quote f @ '' not defined'')))
                 | Some v \<Rightarrow> (htmlEscape v, None))
            | TemplateNode n dot \<Rightarrow>
                if depth = 0 then ([], Some (ErrorString ''exceeded maximum template depth''))
                else (case map_of t n of
                        Some (Some body) \<Rightarrow>
                          execNodes (depth - 1) t funcs body (if dot then data else None)
                      | _ \<Rightarrow> ([], Some (ErrorString (''no such template '' @ Quote n))))) of
        (written, Some err) \<Rightarrow> (written, Some err)
      | (written, None) \<Rightarrow>
          (case execNodes depth t funcs nodes data of
             (written', res) \<Rightarrow> (written @ written', res)))"
  by pat_completeness auto
termination
  by (relation "inv_image (less_than <*lex*> less_than)
                  (\<lambda>(depth, t, funcs, nodes, data). (depth, length nodes))") auto

declare execNodes.simps [simp del] missingTemplate.simps [simp del] lexItems.simps [simp del]

definition fragExecute :: "node list Template \<Rightarrow> FuncMap \<Rightarrow> node list \<Rightarrow> BaseData option \<Rightarrow> string \<times> error option" where
  "fragExecute t funcs tree data =
     (case missingTemplate (length t) t tree of
        Some n \<Rightarrow> ([], Some (ErrorString (''html/template: no such template '' @ Quote n)))
      | None \<Rightarrow> execNodes 100000 t funcs tree data)"

definition fragment :: "node list engine" where
  "fragment = \<lparr>parse = fragParse, IsEmptyTree = emptyTree, execute = fragExecute\<rparr>"

section \<open>Observations on the file system\<close>

text \<open>
  The bytes of the regular file at a path, and the chain of the parents of a path as
  \<^verbatim>\<open>MkdirAll\<close> walks it.
\<close>

definition fileAt :: "filesys \<Rightarrow> string \<Rightarrow> string option" where
  "fileAt fs name = map_of (files fs) (Clean name)"



section \<open>An example site\<close>

text \<open>
  A source tree to run the program on, with the fragment engine: one layout file and
  pages in \<^verbatim>\<open>pages/blog\<close>. The template sets below are what \<^verbatim>\<open>ParseFiles\<close> builds for
  its pages (lemmas \<open>parse_index\<close>, \<open>parse_dash\<close>, ...).
\<close>

definition exampleSite :: filesys where
  \<open>exampleSite =
     \<lparr>dirs = [''src'', ''src/_layouts'', ''src/pages'', ''src/pages/blog'', ''src/other''],
      files =
        [(''src/_layouts/base.html'',
          ''{{define "public"}}Hello {{.Year}}{{end}}{{define "dashboard"}}Board {{template "title"}}{{end}}{{define "title"}}Default{{end}}''),
         (''src/pages/blog/index.template.html'', ''{{define "intro"}}Mine{{end}}''),
         (''src/pages/blog/dash.template.html'',
          ''{{define "layout_name"}} dashboard {{end}}{{define "title"}}Mine{{end}}''),
         (''src/pages/blog/blank.template.html'', ''{{define "layout_name"}}  {{end}}''),
         (''src/pages/blog/fail.template.html'', ''{{define "layout_name"}}{{template "nope"}}{{end}}''),
         (''src/pages/blog/lost.template.html'', ''{{define "layout_name"}}missing{{end}}''),
         (''src/pages/blog/foo.html'', ''{{define "intro"}}Foo{{end}}''),
         (''src/other/x.template.html'', ''{{define "intro"}}X{{end}}'')]\<rparr>\<close>

definition exampleNow :: reading where
  "exampleNow = \<lparr>nowYear = 2024, nowRFC3339 = ''2024-06-01T12:00:00-05:00''\<rparr>"

definition exampleGlobs :: "string list" where
  "exampleGlobs = [''src/_includes/*.html'', ''src/_layouts/*.html'']"

definition exampleStamp :: string where
  "exampleStamp = ''2024-01-01 00:00:00 CST''"

definition baseTrees :: "node list Template" where
  "baseTrees =
     [(''root'', None),
      (''public'', Some [TextNode ''Hello '', FieldNode ''Year'']),
      (''dashboard'', Some [TextNode ''Board '', TemplateNode ''title'' False]),
      (''title'', Some [TextNode ''Default'']),
      (''base.html'', Some [])]"

definition treesIndex :: "node list Template" where
  "treesIndex = baseTrees @ [(''intro'', Some [TextNode ''Mine'']), (''index.template.html'', Some [])]"

definition treesDash :: "node list Template" where
  "treesDash =
     [(''root'', None),
      (''public'', Some [TextNode ''Hello '', FieldNode ''Year'']),
      (''dashboard'', Some [TextNode ''Board '', TemplateNode ''title'' False]),
      (''title'', Some [TextNode ''Mine'']),
      (''base.html'', Some []),
      (''layout_name'', Some [TextNode '' dashboard '']),
      (''dash.template.html'', Some [])]"

definition treesBlank :: "node list Template" where
  "treesBlank = baseTrees @ [(''layout_name'', Some [TextNode ''  '']), (''blank.template.html'', Some [])]"

definition treesFail :: "node list Template" where
  "treesFail = baseTrees @ [(''layout_name'', Some [TemplateNode ''nope'' False]), (''fail.template.html'', Some [])]"


definition treesFoo :: "node list Template" where
  "treesFoo = baseTrees @ [(''intro'', Some [TextNode ''Foo'']), (''foo.html'', Some [])]"

definition treesOther :: "node list Template" where
  "treesOther = baseTrees @ [(''intro'', Some [TextNode ''X'']), (''x.template.html'', Some [])]"

definition exampleClock :: clock where
  "exampleClock =
     \<lparr>LoadLocation = None, defaultTimestamp = ''2024-06-01 12:00:00 CDT'',
      readings = (\<lambda>i. exampleNow)\<rparr>"

definition bareSite :: filesys where
  \<open>bareSite =
     \<lparr>dirs = [''src'', ''src/_layouts''],
      files = [(''src/_layouts/base.html'', ''{{define "public"}}Hello {{.Year}}{{end}}'')]\<rparr>\<close>

definition siteDirs :: filesys where
  "siteDirs = exampleSite\<lparr>dirs := dirs exampleSite @ [''site'', ''site/blog'']\<rparr>"





section \<open>The file system operations\<close>

lemma Mkdir_files: "Mkdir fs p = Inr fs' \<Longrightarrow> files fs' = files fs"
  by (auto simp: Mkdir_def split: if_splits)




lemma MkdirAll_cases:
  assumes "MkdirAll fs path = Inr fs'"
  shows "(Stat fs path = Some ModeDir \<and> fs' = fs) \<or>
         (Stat fs path = None \<and>
          (\<exists>fs1. (if parentOf path \<noteq> [] \<and> path \<noteq> [] then MkdirAll fs (parentOf path) else Inr fs) = Inr fs1 \<and>
                 (Mkdir fs1 path = Inr fs' \<or> (fs' = fs1 \<and> Stat fs1 path = Some ModeDir))))"
  using assms
  by (subst (asm) MkdirAll.simps)
     (auto split: option.splits FileMode.splits sum.splits if_splits)

lemma MkdirAll_step:
  assumes "MkdirAll fs path = Inr fs'"
  obtains (exists) "Stat fs path = Some ModeDir" "fs' = fs"
  | (create) fs1 where "Stat fs path = None"
      "parentOf path \<noteq> [] \<and> path \<noteq> [] \<Longrightarrow> MkdirAll fs (parentOf path) = Inr fs1"
      "\<not> (parentOf path \<noteq> [] \<and> path \<noteq> []) \<Longrightarrow> fs1 = fs"
      "Mkdir fs1 path = Inr fs' \<or> (fs' = fs1 \<and> Stat fs1 path = Some ModeDir)"
  using MkdirAll_cases [OF assms] by (auto split: if_splits)

lemma MkdirAll_files: "MkdirAll fs path = Inr fs' \<Longrightarrow> files fs' = files fs"
proof (induction fs path arbitrary: fs' rule: MkdirAll.induct)
  case (1 fs path)
  from "1.prems" show ?case
  proof (cases rule: MkdirAll_step)
    case exists
    then show ?thesis by simp
  next
    case (create fs1)
    have "files fs1 = files fs"
    proof (cases "parentOf path \<noteq> [] \<and> path \<noteq> []")
      case True
      then show ?thesis using create(2) "1.IH" [OF create(1) True] by simp
    next
      case False
      then show ?thesis using create(3) by simp
    qed
    moreover have "files fs' = files fs1" using create(4) by (auto dest: Mkdir_files)
    ultimately show ?thesis by simp
  qed
qed





lemma Create_fileAt:
  "Create fs p = Inr fs' \<Longrightarrow> files fs' = AList.update (Clean p) [] (files fs)"
  by (auto simp: Create_def split: if_splits)





section \<open>renderOne, step by step\<close>

lemma renderOne_parse_error:
  "ParseFiles eng (funcMap now) fs (templateFiles fs includesGlobs pageFile) = Inl err \<Longrightarrow>
   renderOne eng now fs srcDir outDir includesGlobs pageFile ts = (Some err, fs, [])"
  by (simp add: renderOne_def)

lemma renderOne_rel_error:
  "ParseFiles eng (funcMap now) fs (templateFiles fs includesGlobs pageFile) = Inr t \<Longrightarrow>
   Rel (Join [srcDir, ''pages'']) pageFile = Inl err \<Longrightarrow>
   renderOne eng now fs srcDir outDir includesGlobs pageFile ts = (Some err, fs, [])"
  by (simp add: renderOne_def)

lemma renderOne_executes:
  assumes "ParseFiles eng (funcMap now) fs (templateFiles fs includesGlobs pageFile) = Inr t"
      and "Rel (Join [srcDir, ''pages'']) pageFile = Inr rel"
      and "outPath = Join [outDir, TrimSuffix rel ''.template.html'' @ ''.html'']"
      and "MkdirAll fs (Dir outPath) = Inr fs1"
      and "Create fs1 outPath = Inr fs2"
  shows "renderOne eng now fs srcDir outDir includesGlobs pageFile ts =
         executeLayout eng t now fs2 pageFile outPath (resolveLayout eng t (funcMap now)) ts"
  using assms
  by (simp add: renderOne_def executeLayout_def Let_def split: prod.splits option.splits)

lemma executeLayout_fileAt:
  assumes "Create fs1 outPath = Inr fs2"
      and "ExecuteTemplate eng t (funcMap now) layout
             (Some \<lparr>Year = nowYear now, BuildTimestamp = ts\<rparr>) = (written, res)"
  shows "fileAt (fst (snd (executeLayout eng t now fs2 pageFile outPath layout ts))) q =
         (if Clean q = Clean outPath then Some written else fileAt fs1 q)"
  using assms
  by (cases res)
     (auto simp: executeLayout_def Let_def WriteFile_def fileAt_def Create_def update_conv'
           split: if_splits)

lemma WriteFile_fileAt:
  "fileAt (WriteFile fs p b) q = (if Clean q = Clean p then Some b else fileAt fs q)"
  by (simp add: WriteFile_def fileAt_def update_conv')

lemma Create_fileAt_other:
  "Create fs p = Inr fs' \<Longrightarrow> Clean q \<noteq> Clean p \<Longrightarrow> fileAt fs' q = fileAt fs q"
  by (auto simp: Create_def fileAt_def update_conv' split: if_splits)

lemma MkdirAll_fileAt: "MkdirAll fs p = Inr fs' \<Longrightarrow> fileAt fs' q = fileAt fs q"
  by (simp add: fileAt_def MkdirAll_files)

section \<open>Layout resolution\<close>

text \<open>
  C1. For every template set that \<^verbatim>\<open>renderOne\<close> has built, and when the output file
  can be opened: if the set has no template \<^verbatim>\<open>layout_name\<close>, \<^verbatim>\<open>renderOne\<close> executes the
  layout \<^verbatim>\<open>public\<close>; if it has one, the template is executed with no data, and when that
  succeeds with an output that is not empty once trimmed of white space, \<^verbatim>\<open>renderOne\<close>
  executes the layout named by the trimmed output; when the trimmed output is empty, or
  the execution fails, \<^verbatim>\<open>renderOne\<close> executes \<^verbatim>\<open>public\<close>, and the error of the failed
  execution is dropped: the result is that of executing \<^verbatim>\<open>public\<close>, whatever the error.
\<close>

theorem layout_resolution:
  assumes "ParseFiles eng (funcMap now) fs (templateFiles fs includesGlobs pageFile) = Inr t"
      and "Rel (Join [srcDir, ''pages'']) pageFile = Inr rel"
      and "outPath = Join [outDir, TrimSuffix rel ''.template.html'' @ ''.html'']"
      and "MkdirAll fs (Dir outPath) = Inr fs1"
      and "Create fs1 outPath = Inr fs2"
  shows "(Lookup t ''layout_name'' = None \<longrightarrow>
            renderOne eng now fs srcDir outDir includesGlobs pageFile ts =
            executeLayout eng t now fs2 pageFile outPath ''public'' ts) \<and>
         (Lookup t ''layout_name'' \<noteq> None
            \<and> ExecuteTemplate eng t (funcMap now) ''layout_name'' None = (b, None)
            \<and> TrimSpace b \<noteq> [] \<longrightarrow>
            renderOne eng now fs srcDir outDir includesGlobs pageFile ts =
            executeLayout eng t now fs2 pageFile outPath (TrimSpace b) ts) \<and>
         (Lookup t ''layout_name'' \<noteq> None
            \<and> ExecuteTemplate eng t (funcMap now) ''layout_name'' None = (b, None)
            \<and> TrimSpace b = [] \<longrightarrow>
            renderOne eng now fs srcDir outDir includesGlobs pageFile ts =
            executeLayout eng t now fs2 pageFile outPath ''public'' ts) \<and>
         (Lookup t ''layout_name'' \<noteq> None
            \<and> ExecuteTemplate eng t (funcMap now) ''layout_name'' None = (b, Some err) \<longrightarrow>
            renderOne eng now fs srcDir outDir includesGlobs pageFile ts =
            executeLayout eng t now fs2 pageFile outPath ''public'' ts)"
proof -
  note r = renderOne_executes [OF assms, of ts]
  show ?thesis
  proof (intro conjI impI)
    assume "Lookup t ''layout_name'' = None"
    then have "resolveLayout eng t (funcMap now) = ''public''" by (simp add: resolveLayout_def)
    then show "renderOne eng now fs srcDir outDir includesGlobs pageFile ts =
               executeLayout eng t now fs2 pageFile outPath ''public'' ts"
      using r by simp
  next
    assume "Lookup t ''layout_name'' \<noteq> None
            \<and> ExecuteTemplate eng t (funcMap now) ''layout_name'' None = (b, None)
            \<and> TrimSpace b \<noteq> []"
    then have "resolveLayout eng t (funcMap now) = TrimSpace b" by (simp add: resolveLayout_def)
    then show "renderOne eng now fs srcDir outDir includesGlobs pageFile ts =
               executeLayout eng t now fs2 pageFile outPath (TrimSpace b) ts"
      using r by simp
  next
    assume "Lookup t ''layout_name'' \<noteq> None
            \<and> ExecuteTemplate eng t (funcMap now) ''layout_name'' None = (b, None)
            \<and> TrimSpace b = []"
    then have "resolveLayout eng t (funcMap now) = ''public''" by (simp add: resolveLayout_def)
    then show "renderOne eng now fs srcDir outDir includesGlobs pageFile ts =
               executeLayout eng t now fs2 pageFile outPath ''public'' ts"
      using r by simp
  next
    assume "Lookup t ''layout_name'' \<noteq> None
            \<and> ExecuteTemplate eng t (funcMap now) ''layout_name'' None = (b, Some err)"
    then have "resolveLayout eng t (funcMap now) = ''public''" by (simp add: resolveLayout_def)
    then show "renderOne eng now fs srcDir outDir includesGlobs pageFile ts =
               executeLayout eng t now fs2 pageFile outPath ''public'' ts"
      using r by simp
  qed
qed

subsection \<open>The example site: layouts\<close>

lemma example_includes:
  "concat (map (\<lambda>g. fst (Glob exampleSite g)) exampleGlobs) = [''src/_layouts/base.html'']"
  by code_simp

lemma example_templateFiles:
  "templateFiles exampleSite exampleGlobs page = [''src/_layouts/base.html'', page]"
  by (simp add: templateFiles_def example_includes)

lemma parse_index:
  "ParseFiles fragment (funcMap exampleNow) exampleSite
     [''src/_layouts/base.html'', ''src/pages/blog/index.template.html''] = Inr treesIndex"
  by code_simp

lemma parse_dash:
  "ParseFiles fragment (funcMap exampleNow) exampleSite
     [''src/_layouts/base.html'', ''src/pages/blog/dash.template.html''] = Inr treesDash"
  by code_simp

lemma parse_blank:
  "ParseFiles fragment (funcMap exampleNow) exampleSite
     [''src/_layouts/base.html'', ''src/pages/blog/blank.template.html''] = Inr treesBlank"
  by code_simp

lemma parse_fail:
  "ParseFiles fragment (funcMap exampleNow) exampleSite
     [''src/_layouts/base.html'', ''src/pages/blog/fail.template.html''] = Inr treesFail"
  by code_simp

lemma paths_index:
  "Rel (Join [''./src'', ''pages'']) ''src/pages/blog/index.template.html'' = Inr ''blog/index.template.html''"
  "''site/blog/index.html'' = Join [''./site'', TrimSuffix ''blog/index.template.html'' ''.template.html'' @ ''.html'']"
  "MkdirAll exampleSite (Dir ''site/blog/index.html'') = Inr siteDirs"
  "Create siteDirs ''site/blog/index.html'' =
     Inr (siteDirs\<lparr>files := files siteDirs @ [(''site/blog/index.html'', [])]\<rparr>)"
  by code_simp+

lemma paths_dash:
  "Rel (Join [''./src'', ''pages'']) ''src/pages/blog/dash.template.html'' = Inr ''blog/dash.template.html''"
  "''site/blog/dash.html'' = Join [''./site'', TrimSuffix ''blog/dash.template.html'' ''.template.html'' @ ''.html'']"
  "MkdirAll exampleSite (Dir ''site/blog/dash.html'') = Inr siteDirs"
  "Create siteDirs ''site/blog/dash.html'' =
     Inr (siteDirs\<lparr>files := files siteDirs @ [(''site/blog/dash.html'', [])]\<rparr>)"
  by code_simp+

lemma paths_blank:
  "Rel (Join [''./src'', ''pages'']) ''src/pages/blog/blank.template.html'' = Inr ''blog/blank.template.html''"
  "''site/blog/blank.html'' = Join [''./site'', TrimSuffix ''blog/blank.template.html'' ''.template.html'' @ ''.html'']"
  "MkdirAll exampleSite (Dir ''site/blog/blank.html'') = Inr siteDirs"
  "Create siteDirs ''site/blog/blank.html'' =
     Inr (siteDirs\<lparr>files := files siteDirs @ [(''site/blog/blank.html'', [])]\<rparr>)"
  by code_simp+

lemma paths_fail:
  "Rel (Join [''./src'', ''pages'']) ''src/pages/blog/fail.template.html'' = Inr ''blog/fail.template.html''"
  "''site/blog/fail.html'' = Join [''./site'', TrimSuffix ''blog/fail.template.html'' ''.template.html'' @ ''.html'']"
  "MkdirAll exampleSite (Dir ''site/blog/fail.html'') = Inr siteDirs"
  "Create siteDirs ''site/blog/fail.html'' =
     Inr (siteDirs\<lparr>files := files siteDirs @ [(''site/blog/fail.html'', [])]\<rparr>)"
  by code_simp+

lemmas exec_defs =
  ExecuteTemplate_def Lookup_def fragment_def fragExecute_def missingTemplate.simps
  execNodes.simps baseTrees_def funcMap_def formatInt_def itoa.simps htmlEscape_def Quote_def
  quoteByte_def exampleNow_def

lemma lookup_index: "Lookup treesIndex ''layout_name'' = None"
  by (simp add: Lookup_def treesIndex_def baseTrees_def)

lemma lookup_dash: "Lookup treesDash ''layout_name'' \<noteq> None"
  by (simp add: Lookup_def treesDash_def)

lemma lookup_blank: "Lookup treesBlank ''layout_name'' \<noteq> None"
  by (simp add: Lookup_def treesBlank_def baseTrees_def)

lemma lookup_fail: "Lookup treesFail ''layout_name'' \<noteq> None"
  by (simp add: Lookup_def treesFail_def baseTrees_def)

lemma exec_dash:
  "ExecuteTemplate fragment treesDash (funcMap exampleNow) ''layout_name'' None = ('' dashboard '', None)"
  by (simp add: exec_defs treesDash_def)

lemma exec_blank:
  "ExecuteTemplate fragment treesBlank (funcMap exampleNow) ''layout_name'' None = (''  '', None)"
  by (simp add: exec_defs treesBlank_def)

lemma exec_fail:
  "ExecuteTemplate fragment treesFail (funcMap exampleNow) ''layout_name'' None =
   ([], Some (ErrorString (''html/template: no such template '' @ Quote ''nope'')))"
  by (simp add: exec_defs treesFail_def)

lemma trim_dash: "TrimSpace '' dashboard '' = ''dashboard''"
  by code_simp

lemma trim_blank: "TrimSpace ''  '' = []"
  by code_simp

lemma run_index:
  "executeLayout fragment treesIndex exampleNow fs2 ''src/pages/blog/index.template.html''
     ''site/blog/index.html'' ''public'' exampleStamp =
   (None, WriteFile fs2 ''site/blog/index.html'' ''Hello 2024'',
    [''Rendering src/pages/blog/index.template.html -> site/blog/index.html (layout: public)'',
     ''Successfully wrote site/blog/index.html''])"
  by (simp add: executeLayout_def exec_defs treesIndex_def)

lemma run_dash:
  "executeLayout fragment treesDash exampleNow fs2 ''src/pages/blog/dash.template.html''
     ''site/blog/dash.html'' ''dashboard'' exampleStamp =
   (None, WriteFile fs2 ''site/blog/dash.html'' ''Board Mine'',
    [''Rendering src/pages/blog/dash.template.html -> site/blog/dash.html (layout: dashboard)'',
     ''Successfully wrote site/blog/dash.html''])"
  by (simp add: executeLayout_def exec_defs treesDash_def)

lemma run_blank:
  "executeLayout fragment treesBlank exampleNow fs2 ''src/pages/blog/blank.template.html''
     ''site/blog/blank.html'' ''public'' exampleStamp =
   (None, WriteFile fs2 ''site/blog/blank.html'' ''Hello 2024'',
    [''Rendering src/pages/blog/blank.template.html -> site/blog/blank.html (layout: public)'',
     ''Successfully wrote site/blog/blank.html''])"
  by (simp add: executeLayout_def exec_defs treesBlank_def)

lemma run_fail:
  "executeLayout fragment treesFail exampleNow fs2 ''src/pages/blog/fail.template.html''
     ''site/blog/fail.html'' ''public'' exampleStamp =
   (None, WriteFile fs2 ''site/blog/fail.html'' ''Hello 2024'',
    [''Rendering src/pages/blog/fail.template.html -> site/blog/fail.html (layout: public)'',
     ''Successfully wrote site/blog/fail.html''])"
  by (simp add: executeLayout_def exec_defs treesFail_def)

theorem layout_resolution_witness:
  "renderOne fragment exampleNow exampleSite ''./src'' ''./site'' exampleGlobs
     ''src/pages/blog/index.template.html'' exampleStamp =
   (None,
    WriteFile (siteDirs\<lparr>files := files siteDirs @ [(''site/blog/index.html'', [])]\<rparr>)
      ''site/blog/index.html'' ''Hello 2024'',
    [''Rendering src/pages/blog/index.template.html -> site/blog/index.html (layout: public)'',
     ''Successfully wrote site/blog/index.html'']) \<and>
   renderOne fragment exampleNow exampleSite ''./src'' ''./site'' exampleGlobs
     ''src/pages/blog/dash.template.html'' exampleStamp =
   (None,
    WriteFile (siteDirs\<lparr>files := files siteDirs @ [(''site/blog/dash.html'', [])]\<rparr>)
      ''site/blog/dash.html'' ''Board Mine'',
    [''Rendering src/pages/blog/dash.template.html -> site/blog/dash.html (layout: dashboard)'',
     ''Successfully wrote site/blog/dash.html'']) \<and>
   renderOne fragment exampleNow exampleSite ''./src'' ''./site'' exampleGlobs
     ''src/pages/blog/blank.template.html'' exampleStamp =
   (None,
    WriteFile (siteDirs\<lparr>files := files siteDirs @ [(''site/blog/blank.html'', [])]\<rparr>)
      ''site/blog/blank.html'' ''Hello 2024'',
    [''Rendering src/pages/blog/blank.template.html -> site/blog/blank.html (layout: public)'',
     ''Successfully wrote site/blog/blank.html'']) \<and>
   renderOne fragment exampleNow exampleSite ''./src'' ''./site'' exampleGlobs
     ''src/pages/blog/fail.template.html'' exampleStamp =
   (None,
    WriteFile (siteDirs\<lparr>files := files siteDirs @ [(''site/blog/fail.html'', [])]\<rparr>)
      ''site/blog/fail.html'' ''Hello 2024'',
    [''Rendering src/pages/blog/fail.template.html -> site/blog/fail.html (layout: public)'',
     ''Successfully wrote site/blog/fail.html''])"
proof -
  have pi: "ParseFiles fragment (funcMap exampleNow) exampleSite
              (templateFiles exampleSite exampleGlobs ''src/pages/blog/index.template.html'') = Inr treesIndex"
    by (simp add: example_templateFiles parse_index)
  have pd: "ParseFiles fragment (funcMap exampleNow) exampleSite
              (templateFiles exampleSite exampleGlobs ''src/pages/blog/dash.template.html'') = Inr treesDash"
    by (simp add: example_templateFiles parse_dash)
  have pb: "ParseFiles fragment (funcMap exampleNow) exampleSite
              (templateFiles exampleSite exampleGlobs ''src/pages/blog/blank.template.html'') = Inr treesBlank"
    by (simp add: example_templateFiles parse_blank)
  have pf: "ParseFiles fragment (funcMap exampleNow) exampleSite
              (templateFiles exampleSite exampleGlobs ''src/pages/blog/fail.template.html'') = Inr treesFail"
    by (simp add: example_templateFiles parse_fail)
  have a: "renderOne fragment exampleNow exampleSite ''./src'' ''./site'' exampleGlobs
             ''src/pages/blog/index.template.html'' exampleStamp =
           executeLayout fragment treesIndex exampleNow
             (siteDirs\<lparr>files := files siteDirs @ [(''site/blog/index.html'', [])]\<rparr>)
             ''src/pages/blog/index.template.html'' ''site/blog/index.html'' ''public'' exampleStamp"
    using layout_resolution [OF pi paths_index, where ts = exampleStamp] lookup_index by blast
  have b: "renderOne fragment exampleNow exampleSite ''./src'' ''./site'' exampleGlobs
             ''src/pages/blog/dash.template.html'' exampleStamp =
           executeLayout fragment treesDash exampleNow
             (siteDirs\<lparr>files := files siteDirs @ [(''site/blog/dash.html'', [])]\<rparr>)
             ''src/pages/blog/dash.template.html'' ''site/blog/dash.html'' ''dashboard'' exampleStamp"
    using layout_resolution [OF pd paths_dash, where ts = exampleStamp and b = "'' dashboard ''"]
      lookup_dash exec_dash trim_dash by simp
  have c: "renderOne fragment exampleNow exampleSite ''./src'' ''./site'' exampleGlobs
             ''src/pages/blog/blank.template.html'' exampleStamp =
           executeLayout fragment treesBlank exampleNow
             (siteDirs\<lparr>files := files siteDirs @ [(''site/blog/blank.html'', [])]\<rparr>)
             ''src/pages/blog/blank.template.html'' ''site/blog/blank.html'' ''public'' exampleStamp"
    using layout_resolution [OF pb paths_blank, where ts = exampleStamp and b = "''  ''"]
      lookup_blank exec_blank trim_blank by simp
  have d: "renderOne fragment exampleNow exampleSite ''./src'' ''./site'' exampleGlobs
             ''src/pages/blog/fail.template.html'' exampleStamp =
           executeLayout fragment treesFail exampleNow
             (siteDirs\<lparr>files := files siteDirs @ [(''site/blog/fail.html'', [])]\<rparr>)
             ''src/pages/blog/fail.template.html'' ''site/blog/fail.html'' ''public'' exampleStamp"
    using layout_resolution [OF pf paths_fail, where ts = exampleStamp and b = "[]"
        and err = "ErrorString (''html/template: no such template '' @ Quote ''nope'')"]
      lookup_fail exec_fail by simp
  show ?thesis
    unfolding a b c d run_index run_dash run_blank run_fail by simp
qed



section \<open>Discovery\<close>

subsection \<open>A site without pages\<close>

lemma bare_mkdir:
  "MkdirAll bareSite (flag_out defaultFlags) = Inr (bareSite\<lparr>dirs := dirs bareSite @ [''site'']\<rparr>)"
  by code_simp

lemma bare_glob:
  "Glob (bareSite\<lparr>dirs := dirs bareSite @ [''site'']\<rparr>)
     (Join [flag_src defaultFlags, flag_glob defaultFlags]) = ([], None)"
  by code_simp

lemma default_pattern:
  "Join [flag_src defaultFlags, flag_glob defaultFlags] = ''src/pages/**/*.template.html''"
  by code_simp


text \<open>
  C7. When the page glob matches no file, the run ends with status 1 and the message
  \<^verbatim>\<open>no page templates found: <pattern>\<close>; no page has been rendered (the log holds the
  four lines of the start only, and the template engine is not consulted) and no file
  has been written: the files are those the run found.
\<close>

theorem empty_discovery_aborts:
  assumes "LoadLocation clk = None"
      and "MkdirAll fs (flag_out fl) = Inr fs1"
      and "Glob fs1 (Join [flag_src fl, flag_glob fl]) = ([], None)"
  shows "main eng clk fl fs =
           \<lparr>exitStatus = 1,
            errorStream = ''no page templates found: '' @ Join [flag_src fl, flag_glob fl] @ [CHR 0x0A],
            fileSystem = fs1,
            logLines = [''Starting static site generation...'',
                        ''Source directory: '' @ flag_src fl,
                        ''Output directory: '' @ flag_out fl,
                        ''Build timestamp: '' @ (case flag_timestamp fl of
                                                   Some ts \<Rightarrow> ts | None \<Rightarrow> defaultTimestamp clk)]\<rparr>
         \<and> files fs1 = files fs"
  using assms by (simp add: main_def Let_def fatal_def MkdirAll_files)

theorem empty_discovery_aborts_witness:
  "exitStatus (main fragment exampleClock defaultFlags bareSite) = 1 \<and>
   errorStream (main fragment exampleClock defaultFlags bareSite) =
     ''no page templates found: src/pages/**/*.template.html'' @ [CHR 0x0A] \<and>
   files (fileSystem (main fragment exampleClock defaultFlags bareSite)) = files bareSite \<and>
   length (logLines (main fragment exampleClock defaultFlags bareSite)) = 4"
proof -
  have l: "LoadLocation exampleClock = None" by (simp add: exampleClock_def)
  show ?thesis
    using empty_discovery_aborts [OF l bare_mkdir bare_glob, of fragment] default_pattern
    by simp
qed

section \<open>The output root\<close>

subsection \<open>A run that leaves no output root\<close>




subsection \<open>What every run does with the output root\<close>





section \<open>Suffixes and quoting\<close>

lemma HasSuffix_iff: "HasSuffix s suffix \<longleftrightarrow> (\<exists>p. s = p @ suffix)"
proof
  assume h: "HasSuffix s suffix"
  then have "s = take (length s - length suffix) s @ suffix"
    unfolding HasSuffix_def by (metis append_take_drop_id)
  then show "\<exists>p. s = p @ suffix" ..
next
  assume "\<exists>p. s = p @ suffix"
  then show "HasSuffix s suffix" by (auto simp: HasSuffix_def)
qed

lemma TrimSuffix_append: "TrimSuffix (stem @ suffix) suffix = stem"
  by (simp add: TrimSuffix_def HasSuffix_def)

lemma TrimSuffix_absent: "\<not> HasSuffix s suffix \<Longrightarrow> TrimSuffix s suffix = s"
  by (simp add: TrimSuffix_def)

lemma TrimSuffix_present: "HasSuffix s suffix \<Longrightarrow> TrimSuffix s suffix @ suffix = s"
  by (auto simp: TrimSuffix_def HasSuffix_iff)



section \<open>Failure of the layout execution\<close>


subsection \<open>The example site: a page whose layout is not defined\<close>









end
